theory Spec2Isabelle
  imports Main
begin

section \<open>The endpoint \<open>POST /api/check-ssl\<close> of \<open>backend/scripts/ssl_api.py\<close>\<close>

text \<open>
  The handler being modelled:
  \<^verbatim>\<open>
   8  def check_ssl():
   9      try:
  10          data = request.get_json()
  11          if not data or 'hosts' not in data:
  12              return jsonify({'error': 'Missing hosts in request body'}), 400
  14          hosts = data['hosts']
  15          if not isinstance(hosts, list):
  16              hosts = [hosts]  # Convert single host to list
  19          ssl_checker = SSLChecker()
  22          results = []
  23          for host in hosts:
  24              result = ssl_checker.get_certificate_info(host)
  25              results.append(result)
  27          return jsonify({'success': True, 'results': results})
  32      except Exception as e:
  33          return jsonify({'success': False, 'error': str(e)}), 500
  \<close>
\<close>

subsection \<open>Python values decoded from a JSON body\<close>

text \<open>
  What \<open>request.get_json()\<close> can return: \<open>None\<close>, a bool, a number, a string, a list or a
  dict. Numbers are the integers (a float would behave like an integer everywhere below:
  falsy when zero, and neither a container nor subscriptable). A dict is the association
  list of its items, read with \<open>map_of\<close>.
\<close>

datatype json =
    JNull
  | JBool bool
  | JInt int
  | JStr string
  | JArr "json list"
  | JObj "(string \<times> json) list"

text \<open>
  A raised exception with its \<open>str(e)\<close>. Line 32 catches the instances of \<open>Exception\<close>
  only; \<open>SystemExit\<close>, \<open>KeyboardInterrupt\<close> and \<open>GeneratorExit\<close> derive from
  \<open>BaseException\<close> directly and pass through the handler.
\<close>

datatype exn = Exception string | BaseException string

text \<open>Truthiness, as \<open>not data\<close> tests it.\<close>

fun truthy :: "json \<Rightarrow> bool" where
  "truthy JNull = False"
| "truthy (JBool b) = b"
| "truthy (JInt n) = (n \<noteq> 0)"
| "truthy (JStr s) = (s \<noteq> [])"
| "truthy (JArr xs) = (xs \<noteq> [])"
| "truthy (JObj kvs) = (kvs \<noteq> [])"

fun starts_with :: "string \<Rightarrow> string \<Rightarrow> bool" where
  "starts_with [] s = True"
| "starts_with (p # ps) [] = False"
| "starts_with (p # ps) (c # cs) = (p = c \<and> starts_with ps cs)"

fun substring :: "string \<Rightarrow> string \<Rightarrow> bool" where
  "substring p [] = (p = [])"
| "substring p (c # cs) = (starts_with p (c # cs) \<or> substring p cs)"

text \<open>
  \<open>k in data\<close> for a string \<open>k\<close>: key membership in a dict, element membership in a list,
  substring test in a string, and a \<open>TypeError\<close> on everything else. The messages of the
  \<open>TypeError\<close>s here and below are those of CPython 3.11 to 3.13; only the fact that an
  exception is raised matters to the handler.
\<close>

fun py_in :: "string \<Rightarrow> json \<Rightarrow> exn + bool" where
  "py_in k (JObj kvs) = Inr (k \<in> set (map fst kvs))"
| "py_in k (JArr xs) = Inr (JStr k \<in> set xs)"
| "py_in k (JStr s) = Inr (substring k s)"
| "py_in k JNull = Inl (Exception ''argument of type 'NoneType' is not iterable'')"
| "py_in k (JBool b) = Inl (Exception ''argument of type 'bool' is not iterable'')"
| "py_in k (JInt n) = Inl (Exception ''argument of type 'int' is not iterable'')"

text \<open>
  \<open>data[k]\<close> for a string \<open>k\<close>: the value of the key in a dict (\<open>KeyError\<close> when it is
  missing), and a \<open>TypeError\<close> on everything else.
\<close>

fun getitem :: "json \<Rightarrow> string \<Rightarrow> exn + json" where
  "getitem (JObj kvs) k =
     (case map_of kvs k of
        Some v \<Rightarrow> Inr v
      | None \<Rightarrow> Inl (Exception ([CHR 0x27] @ k @ [CHR 0x27])))"
| "getitem (JArr xs) k = Inl (Exception ''list indices must be integers or slices, not str'')"
| "getitem (JStr s) k = Inl (Exception (''string indices must be integers, not 'str'' @ [CHR 0x27]))"
| "getitem JNull k = Inl (Exception (CHR 0x27 # ''NoneType' object is not subscriptable''))"
| "getitem (JBool b) k = Inl (Exception (CHR 0x27 # ''bool' object is not subscriptable''))"
| "getitem (JInt n) k = Inl (Exception (CHR 0x27 # ''int' object is not subscriptable''))"

text \<open>Lines 15 and 16: a value that is not a list becomes a one-element list.\<close>

fun as_list :: "json \<Rightarrow> json list" where
  "as_list (JArr xs) = xs"
| "as_list v = [v]"

subsection \<open>Responses\<close>

text \<open>
  The three responses of the handler: line 12, line 27 (status 200, as no status is given)
  and line 33. \<open>jsonify\<close> of a dict of strings and booleans returns; only the result list
  of line 27 can fail to serialise.
\<close>

record response =
  status_code :: nat
  body :: json

definition missing_hosts_response :: response where
  "missing_hosts_response =
     \<lparr>status_code = 400, body = JObj [(''error'', JStr ''Missing hosts in request body'')]\<rparr>"

definition success_response :: "json list \<Rightarrow> response" where
  "success_response results =
     \<lparr>status_code = 200, body = JObj [(''success'', JBool True), (''results'', JArr results)]\<rparr>"

definition failure_response :: "string \<Rightarrow> response" where
  "failure_response msg =
     \<lparr>status_code = 500, body = JObj [(''success'', JBool False), (''error'', JStr msg)]\<rparr>"

subsection \<open>What the handler calls\<close>

text \<open>
  The module \<open>ssl_checker\<close> is imported and not part of the file, so the class comes in as
  a parameter: the constructor \<open>SSLChecker()\<close> returns the state of a new instance or
  raises; the method \<open>get_certificate_info(host)\<close> returns a result together with the state
  it leaves the instance in, or raises. \<open>jsonify_result\<close> is what \<open>flask.jsonify\<close> makes of
  one result (it raises a \<open>TypeError\<close> on an object it cannot serialise). The class
  is taken to keep no state outside its instances: what the constructor returns, and what
  the method does on a given instance state and host, are fixed.
\<close>

record ('c, 'r) externals =
  SSLChecker :: "exn + 'c"
  get_certificate_info :: "'c \<Rightarrow> json \<Rightarrow> exn + ('r \<times> 'c)"
  jsonify_result :: "'r \<Rightarrow> exn + json"

text \<open>
  The state of the process between and during requests: the \<open>SSLChecker\<close> instances
  created so far (an instance's address is its index; nothing is collected), and the calls
  made to the class, in order.
\<close>

datatype call = New_SSLChecker | Get_certificate_info json

record 'c world =
  heap :: "'c list"
  calls :: "call list"

definition log :: "call \<Rightarrow> 'c world \<Rightarrow> 'c world" where
  "log c w = w\<lparr>calls := calls w @ [c]\<rparr>"

subsection \<open>The handler\<close>

text \<open>
  Lines 22 to 25: the loop over the hosts, on the instance at address \<open>a\<close>. An exception
  leaves the loop at once.
\<close>

fun probe_hosts ::
  "('c, 'r) externals \<Rightarrow> nat \<Rightarrow> json list \<Rightarrow> 'r list \<Rightarrow> 'c world \<Rightarrow> (exn + 'r list) \<times> 'c world"
where
  "probe_hosts K a [] results w = (Inr results, w)"
| "probe_hosts K a (host # hosts) results w =
     (case get_certificate_info K (heap w ! a) host of
        Inl e \<Rightarrow> (Inl e, log (Get_certificate_info host) w)
      | Inr (result, c') \<Rightarrow>
          probe_hosts K a hosts (results @ [result])
            (log (Get_certificate_info host) (w\<lparr>heap := (heap w)[a := c']\<rparr>)))"

text \<open>The serialisation of the result list by \<open>jsonify\<close> on line 27, left to right.\<close>

fun jsonify_results :: "('c, 'r) externals \<Rightarrow> 'r list \<Rightarrow> exn + json list" where
  "jsonify_results K [] = Inr []"
| "jsonify_results K (r # rs) =
     (case jsonify_result K r of
        Inl e \<Rightarrow> Inl e
      | Inr j \<Rightarrow> (case jsonify_results K rs of Inl e \<Rightarrow> Inl e | Inr js \<Rightarrow> Inr (j # js)))"

text \<open>Line 11: \<open>not data or 'hosts' not in data\<close>, with the short circuit of \<open>or\<close>.\<close>

definition missing_hosts :: "json \<Rightarrow> exn + bool" where
  "missing_hosts data =
     (if \<not> truthy data then Inr True
      else case py_in ''hosts'' data of Inl e \<Rightarrow> Inl e | Inr b \<Rightarrow> Inr (\<not> b))"

text \<open>
  Lines 10 to 30, the body of the \<open>try\<close>. The request is what \<open>request.get_json()\<close> does
  on it: return the decoded body or raise.
\<close>

definition try_body ::
  "('c, 'r) externals \<Rightarrow> exn + json \<Rightarrow> 'c world \<Rightarrow> (exn + response) \<times> 'c world"
where
  "try_body K get_json w =
     (case get_json of
        Inl e \<Rightarrow> (Inl e, w)
      | Inr data \<Rightarrow>
          (case missing_hosts data of
             Inl e \<Rightarrow> (Inl e, w)
           | Inr True \<Rightarrow> (Inr missing_hosts_response, w)
           | Inr False \<Rightarrow>
               (case getitem data ''hosts'' of
                  Inl e \<Rightarrow> (Inl e, w)
                | Inr hosts \<Rightarrow>
                    (case SSLChecker K of
                       Inl e \<Rightarrow> (Inl e, log New_SSLChecker w)
                     | Inr c \<Rightarrow>
                         (case probe_hosts K (length (heap w)) (as_list hosts) []
                                 (log New_SSLChecker (w\<lparr>heap := heap w @ [c]\<rparr>)) of
                            (Inl e, w') \<Rightarrow> (Inl e, w')
                          | (Inr results, w') \<Rightarrow>
                              (case jsonify_results K results of
                                 Inl e \<Rightarrow> (Inl e, w')
                               | Inr js \<Rightarrow> (Inr (success_response js), w')))))))"

text \<open>Lines 9 and 32 to 36: the \<open>except Exception\<close> clause around the body.\<close>

definition check_ssl ::
  "('c, 'r) externals \<Rightarrow> exn + json \<Rightarrow> 'c world \<Rightarrow> (exn + response) \<times> 'c world"
where
  "check_ssl K get_json w =
     (case try_body K get_json w of
        (Inl (Exception msg), w') \<Rightarrow> (Inr (failure_response msg), w')
      | (Inl (BaseException msg), w') \<Rightarrow> (Inl (BaseException msg), w')
      | (Inr resp, w') \<Rightarrow> (Inr resp, w'))"

subsection \<open>The instance during the loop\<close>

text \<open>
  The state of the instance after the calls for the hosts \<open>hs\<close>, from the state \<open>c\<close>: before
  the probe of \<open>hosts[i]\<close> the instance is in the state
  \<open>checker_after K c (take i hosts)\<close>. A call that raises ends the loop, so the state it
  leaves is never read; it is taken as unchanged.
\<close>

definition step :: "('c, 'r) externals \<Rightarrow> json \<Rightarrow> 'c \<Rightarrow> 'c" where
  "step K host c = (case get_certificate_info K c host of Inl e \<Rightarrow> c | Inr (r, c') \<Rightarrow> c')"

definition checker_after :: "('c, 'r) externals \<Rightarrow> 'c \<Rightarrow> json list \<Rightarrow> 'c" where
  "checker_after K c hs = fold (step K) hs c"

text \<open>The outcome of the probe of \<open>hosts[i]\<close> in a batch that starts from the state \<open>c\<close>.\<close>

definition probe :: "('c, 'r) externals \<Rightarrow> 'c \<Rightarrow> json list \<Rightarrow> nat \<Rightarrow> exn + 'r" where
  "probe K c hosts i =
     map_sum id fst (get_certificate_info K (checker_after K c (take i hosts)) (hosts ! i))"

subsection \<open>The classification policy of the checker\<close>

text \<open>
  Modelled from the spec: the statuses of a probe result. They belong to the module
  \<open>ssl_checker\<close>, which the handler imports and which is not part of the file.
\<close>

datatype probe_status =
  ok | expiring_soon | expired | self_signed | unreachable | handshake_error | timeout

text \<open>
  Modelled from the spec: the certificate metadata of the module \<open>ssl_checker\<close>, with the
  fields of the data model; times are seconds. The policy is a function of the certificate,
  the current time and the threshold only, so whether a trusted chain was established is
  read off the certificate as well.
\<close>

record certificate_info =
  subject :: string
  issuer :: string
  serial_number :: string
  not_before :: int
  not_after :: int
  signature_algorithm :: string
  subject_alternative_names :: "string list"
  public_key_algorithm :: string
  public_key_size :: nat
  trusted_chain :: bool

text \<open>
  Modelled from the spec: the classification of a retrieved certificate by the module
  \<open>ssl_checker\<close>, the four cases of the policy in the order the spec gives them:
  \<open>expired\<close> if the current time is after not-after, \<open>expiring_soon\<close> if not-after minus the
  current time is below the threshold, \<open>self_signed\<close> if the issuer equals the subject and
  no trusted chain was established, \<open>ok\<close> otherwise.
\<close>

definition classify :: "certificate_info \<Rightarrow> int \<Rightarrow> int \<Rightarrow> probe_status" where
  "classify cert now threshold =
     (if now > not_after cert then expired
      else if not_after cert - now < threshold then expiring_soon
      else if issuer cert = subject cert \<and> \<not> trusted_chain cert then self_signed
      else ok)"

definition days :: "int \<Rightarrow> int" where
  "days n = n * 86400"

subsection \<open>A checker to run the handler on\<close>

text \<open>
  An instance counts the probes it has answered. The probe of \<open>down.example\<close> returns a
  result that reports the failure; the probe of \<open>raises.example\<close> raises; results are JSON
  values already.
\<close>

definition result_of :: "json \<Rightarrow> string \<Rightarrow> json" where
  "result_of host st = JObj [(''host'', host), (''status'', JStr st)]"

definition example_checker :: "(nat, json) externals" where
  "example_checker =
     \<lparr>SSLChecker = Inr 0,
      get_certificate_info = (\<lambda>n host.
        if host = JStr ''raises.example'' then Inl (Exception ''[Errno 111] Connection refused'')
        else if host = JStr ''down.example'' then Inr (result_of host ''unreachable'', Suc n)
        else Inr (result_of host ''ok'', Suc n)),
      jsonify_result = Inr\<rparr>"

definition idle :: "nat world" where
  "idle = \<lparr>heap = [], calls = []\<rparr>"

definition example_certificate :: "string \<Rightarrow> string \<Rightarrow> int \<Rightarrow> bool \<Rightarrow> certificate_info" where
  "example_certificate subj iss expiry trusted =
     \<lparr>subject = subj, issuer = iss, serial_number = ''01'', not_before = 0,
      not_after = expiry, signature_algorithm = ''sha256WithRSAEncryption'',
      subject_alternative_names = [subj], public_key_algorithm = ''RSA'',
      public_key_size = 2048, trusted_chain = trusted\<rparr>"

section \<open>Properties of the handler\<close>

subsection \<open>The loop and the body of the \<open>try\<close>\<close>


lemma checker_after_Nil [simp]: "checker_after K c [] = c"
  by (simp add: checker_after_def)

lemma checker_after_Cons [simp]: "checker_after K c (h # hs) = checker_after K (step K h c) hs"
  by (simp add: checker_after_def)

lemma probe_0 [simp]: "probe K c (h # hs) 0 = map_sum id fst (get_certificate_info K c h)"
  by (simp add: probe_def)

lemma probe_Suc [simp]: "probe K c (h # hs) (Suc i) = probe K (step K h c) hs i"
  by (simp add: probe_def)

lemma probe_hosts_returns:
  assumes "probe_hosts K a hs acc w = (Inr rs, w')" and "a < length (heap w)"
  shows "\<exists>new. rs = acc @ new \<and> length new = length hs
           \<and> (\<forall>i<length hs. probe K (heap w ! a) hs i = Inr (new ! i))
           \<and> w' = w\<lparr>heap := (heap w)[a := checker_after K (heap w ! a) hs],
                     calls := calls w @ map Get_certificate_info hs\<rparr>"
  using assms
proof (induction hs arbitrary: acc w)
  case Nil
  then show ?case by simp
next
  case (Cons h hs)
  from Cons.prems(1) obtain r c' where g: "get_certificate_info K (heap w ! a) h = Inr (r, c')"
    by (auto split: sum.splits)
  let ?w1 = "log (Get_certificate_info h) (w\<lparr>heap := (heap w)[a := c']\<rparr>)"
  from Cons.prems(1) g have run: "probe_hosts K a hs (acc @ [r]) ?w1 = (Inr rs, w')"
    by simp
  have a1: "a < length (heap ?w1)" and h1: "heap ?w1 ! a = c'"
    using Cons.prems(2) by (simp_all add: log_def)
  from Cons.IH [OF run a1] obtain new where
    new: "rs = (acc @ [r]) @ new" "length new = length hs"
      "\<forall>i<length hs. probe K c' hs i = Inr (new ! i)"
      "w' = ?w1\<lparr>heap := (heap ?w1)[a := checker_after K c' hs],
                 calls := calls ?w1 @ map Get_certificate_info hs\<rparr>"
    unfolding h1 by blast
  have st: "step K h (heap w ! a) = c'"
    using g by (simp add: step_def)
  have idx: "\<forall>i<length (h # hs). probe K (heap w ! a) (h # hs) i = Inr ((r # new) ! i)"
  proof (intro allI impI)
    fix i assume "i < length (h # hs)"
    then show "probe K (heap w ! a) (h # hs) i = Inr ((r # new) ! i)"
      using g st new(3) by (cases i) simp_all
  qed
  have "w' = w\<lparr>heap := (heap w)[a := checker_after K (heap w ! a) (h # hs)],
                calls := calls w @ map Get_certificate_info (h # hs)\<rparr>"
    using new(4) st by (simp add: log_def)
  with new(1,2) idx show ?case
    by (intro exI [of _ "r # new"]) simp
qed

lemma probe_hosts_raises:
  assumes "probe_hosts K a hs acc w = (Inl e, w')" and "a < length (heap w)"
  shows "\<exists>i<length hs. probe K (heap w ! a) hs i = Inl e
           \<and> (\<forall>j<i. \<exists>r. probe K (heap w ! a) hs j = Inr r)
           \<and> w' = w\<lparr>heap := (heap w)[a := checker_after K (heap w ! a) (take i hs)],
                     calls := calls w @ map Get_certificate_info (take (Suc i) hs)\<rparr>"
  using assms
proof (induction hs arbitrary: acc w)
  case Nil
  then show ?case by simp
next
  case (Cons h hs)
  show ?case
  proof (cases "get_certificate_info K (heap w ! a) h")
    case (Inl e')
    with Cons.prems have "e' = e" "w' = log (Get_certificate_info h) w"
      by simp_all
    with Inl Cons.prems(2) show ?thesis
      by (intro exI [of _ 0]) (simp add: log_def)
  next
    case (Inr p)
    obtain r c' where p: "p = (r, c')" by (cases p)
    let ?w1 = "log (Get_certificate_info h) (w\<lparr>heap := (heap w)[a := c']\<rparr>)"
    from Cons.prems(1) Inr p have run: "probe_hosts K a hs (acc @ [r]) ?w1 = (Inl e, w')"
      by simp
    have a1: "a < length (heap ?w1)" and h1: "heap ?w1 ! a = c'"
      using Cons.prems(2) by (simp_all add: log_def)
    from Cons.IH [OF run a1] obtain i where
      i: "i < length hs" "probe K c' hs i = Inl e" "\<forall>j<i. \<exists>r. probe K c' hs j = Inr r"
        "w' = ?w1\<lparr>heap := (heap ?w1)[a := checker_after K c' (take i hs)],
                   calls := calls ?w1 @ map Get_certificate_info (take (Suc i) hs)\<rparr>"
      unfolding h1 by blast
    have st: "step K h (heap w ! a) = c'"
      using Inr p by (simp add: step_def)
    have before: "\<forall>j<Suc i. \<exists>r. probe K (heap w ! a) (h # hs) j = Inr r"
    proof (intro allI impI)
      fix j assume "j < Suc i"
      then show "\<exists>r. probe K (heap w ! a) (h # hs) j = Inr r"
        using Inr p st i(3) by (cases j) simp_all
    qed
    have "w' = w\<lparr>heap := (heap w)[a := checker_after K (heap w ! a) (take (Suc i) (h # hs))],
                  calls := calls w @ map Get_certificate_info (take (Suc (Suc i)) (h # hs))\<rparr>"
      using i(4) st by (simp add: log_def)
    with i(1,2) st before show ?thesis
      by (intro exI [of _ "Suc i"]) simp
  qed
qed

lemma probe_hosts_all_return:
  assumes "a < length (heap w)" and "length rs = length hs"
    and "\<forall>i<length hs. probe K (heap w ! a) hs i = Inr (rs ! i)"
  shows "probe_hosts K a hs acc w =
           (Inr (acc @ rs),
            w\<lparr>heap := (heap w)[a := checker_after K (heap w ! a) hs],
              calls := calls w @ map Get_certificate_info hs\<rparr>)"
proof (cases "probe_hosts K a hs acc w")
  case (Pair out w')
  show ?thesis
  proof (cases out)
    case (Inl e)
    with Pair probe_hosts_raises [of K a hs acc w e w'] assms(1,3) show ?thesis
      by fastforce
  next
    case (Inr rs')
    with Pair probe_hosts_returns [of K a hs acc w rs' w'] assms(1) obtain new where
      new: "rs' = acc @ new" "length new = length hs"
        "\<forall>i<length hs. probe K (heap w ! a) hs i = Inr (new ! i)"
        "w' = w\<lparr>heap := (heap w)[a := checker_after K (heap w ! a) hs],
                  calls := calls w @ map Get_certificate_info hs\<rparr>"
      by blast
    have "new = rs"
      using new(2,3) assms(2,3) by (intro nth_equalityI) auto
    with Pair Inr new show ?thesis by simp
  qed
qed

lemma probe_hosts_first_raise:
  assumes "a < length (heap w)" and "i < length hs"
    and "\<forall>j<i. \<exists>r. probe K (heap w ! a) hs j = Inr r"
    and "probe K (heap w ! a) hs i = Inl e"
  shows "probe_hosts K a hs acc w =
           (Inl e,
            w\<lparr>heap := (heap w)[a := checker_after K (heap w ! a) (take i hs)],
              calls := calls w @ map Get_certificate_info (take (Suc i) hs)\<rparr>)"
proof (cases "probe_hosts K a hs acc w")
  case (Pair out w')
  show ?thesis
  proof (cases out)
    case (Inr rs')
    with Pair probe_hosts_returns [of K a hs acc w rs' w'] assms(1,2,4) show ?thesis
      by fastforce
  next
    case (Inl e')
    with Pair probe_hosts_raises [of K a hs acc w e' w'] assms(1) obtain k where
      k: "k < length hs" "probe K (heap w ! a) hs k = Inl e'"
        "\<forall>j<k. \<exists>r. probe K (heap w ! a) hs j = Inr r"
        "w' = w\<lparr>heap := (heap w)[a := checker_after K (heap w ! a) (take k hs)],
                  calls := calls w @ map Get_certificate_info (take (Suc k) hs)\<rparr>"
      by blast
    have "\<not> k < i" using assms(3) k(2) by fastforce
    moreover have "\<not> i < k" using assms(4) k(3) by fastforce
    ultimately have "k = i" by simp
    with Pair Inl k assms(4) show ?thesis by simp
  qed
qed

lemma jsonify_results_returns:
  "jsonify_results K rs = Inr js \<longleftrightarrow>
     length js = length rs \<and> (\<forall>i<length rs. jsonify_result K (rs ! i) = Inr (js ! i))"
proof (induction rs arbitrary: js)
  case Nil
  then show ?case by auto
next
  case (Cons r rs)
  show ?case
  proof (cases js)
    case Nil
    then show ?thesis by (auto split: sum.splits)
  next
    case (Cons j js')
    have "(\<forall>i<Suc (length rs). jsonify_result K ((r # rs) ! i) = Inr ((j # js') ! i)) \<longleftrightarrow>
          jsonify_result K r = Inr j \<and> (\<forall>i<length rs. jsonify_result K (rs ! i) = Inr (js' ! i))"
      by (auto simp: less_Suc_eq_0_disj)
    with Cons Cons.IH [of js'] show ?thesis
      by (auto split: sum.splits)
  qed
qed

lemma jsonify_results_raises:
  "jsonify_results K rs = Inl e \<Longrightarrow> \<exists>i<length rs. jsonify_result K (rs ! i) = Inl e"
proof (induction rs)
  case Nil
  then show ?case by simp
next
  case (Cons r rs)
  show ?case
  proof (cases "jsonify_result K r")
    case (Inl e')
    with Cons.prems show ?thesis by auto
  next
    case (Inr j)
    with Cons.prems have "jsonify_results K rs = Inl e"
      by (auto split: sum.splits)
    from Cons.IH [OF this] show ?thesis by auto
  qed
qed

lemma hosts_present:
  assumes "map_of kvs ''hosts'' = Some v"
  shows "missing_hosts (JObj kvs) = Inr False" and "getitem (JObj kvs) ''hosts'' = Inr v"
proof -
  from assms have "''hosts'' \<in> set (map fst kvs)"
    by (metis domI dom_map_of_conv_image_fst list.set_map)
  moreover from assms have "kvs \<noteq> []" by auto
  ultimately show "missing_hosts (JObj kvs) = Inr False"
    by (simp add: missing_hosts_def)
  from assms show "getitem (JObj kvs) ''hosts'' = Inr v" by simp
qed

text \<open>The body of the \<open>try\<close> on a dict with the key \<open>hosts\<close>, once the constructor has returned.\<close>

lemma try_body_hosts:
  assumes "map_of kvs ''hosts'' = Some v" and "SSLChecker K = Inr c"
  shows "try_body K (Inr (JObj kvs)) w =
           (case probe_hosts K (length (heap w)) (as_list v) []
                   (log New_SSLChecker (w\<lparr>heap := heap w @ [c]\<rparr>)) of
              (Inl e, w') \<Rightarrow> (Inl e, w')
            | (Inr results, w') \<Rightarrow>
                (case jsonify_results K results of
                   Inl e \<Rightarrow> (Inl e, w')
                 | Inr js \<Rightarrow> (Inr (success_response js), w')))"
  using hosts_present [OF assms(1)] assms(2) by (simp add: try_body_def)

lemma try_body_all_return:
  assumes "map_of kvs ''hosts'' = Some v" and "SSLChecker K = Inr c"
    and "length rs = length (as_list v)"
    and "\<forall>i<length (as_list v). probe K c (as_list v) i = Inr (rs ! i)"
  shows "try_body K (Inr (JObj kvs)) w =
           (case jsonify_results K rs of
              Inl e \<Rightarrow> Inl e
            | Inr js \<Rightarrow> Inr (success_response js),
            w\<lparr>heap := heap w @ [checker_after K c (as_list v)],
              calls := calls w @ New_SSLChecker # map Get_certificate_info (as_list v)\<rparr>)"
proof -
  let ?w0 = "log New_SSLChecker (w\<lparr>heap := heap w @ [c]\<rparr>)"
  have a: "length (heap w) < length (heap ?w0)" and c: "heap ?w0 ! length (heap w) = c"
    by (simp_all add: log_def)
  have "probe_hosts K (length (heap w)) (as_list v) [] ?w0 =
          (Inr ([] @ rs),
           ?w0\<lparr>heap := (heap ?w0)[length (heap w) := checker_after K c (as_list v)],
               calls := calls ?w0 @ map Get_certificate_info (as_list v)\<rparr>)"
    using probe_hosts_all_return [OF a assms(3), of K "[]"] assms(4) unfolding c by blast
  then show ?thesis
    unfolding try_body_hosts [OF assms(1,2)]
    by (simp add: log_def split: sum.splits)
qed

lemma try_body_probe_raises:
  assumes "map_of kvs ''hosts'' = Some v" and "SSLChecker K = Inr c"
    and "i < length (as_list v)"
    and "\<forall>j<i. \<exists>r. probe K c (as_list v) j = Inr r"
    and "probe K c (as_list v) i = Inl e"
  shows "try_body K (Inr (JObj kvs)) w =
           (Inl e,
            w\<lparr>heap := heap w @ [checker_after K c (take i (as_list v))],
              calls := calls w @ New_SSLChecker # map Get_certificate_info (take (Suc i) (as_list v))\<rparr>)"
proof -
  let ?w0 = "log New_SSLChecker (w\<lparr>heap := heap w @ [c]\<rparr>)"
  have a: "length (heap w) < length (heap ?w0)" and c: "heap ?w0 ! length (heap w) = c"
    by (simp_all add: log_def)
  have "probe_hosts K (length (heap w)) (as_list v) [] ?w0 =
          (Inl e,
           ?w0\<lparr>heap := (heap ?w0)[length (heap w) := checker_after K c (take i (as_list v))],
               calls := calls ?w0 @ map Get_certificate_info (take (Suc i) (as_list v))\<rparr>)"
    using probe_hosts_first_raise [OF a assms(3), of K e "[]"] assms(4,5) unfolding c by blast
  then show ?thesis
    unfolding try_body_hosts [OF assms(1,2)]
    by (simp add: log_def)
qed

text \<open>The four ways a call of the handler can end.\<close>

lemma check_ssl_cases:
  assumes "check_ssl K req w = (out, w')"
  shows "(\<exists>data. req = Inr data \<and> missing_hosts data = Inr True
             \<and> out = Inr missing_hosts_response \<and> w' = w)
       \<or> (\<exists>msg. out = Inr (failure_response msg))
       \<or> (\<exists>js. out = Inr (success_response js))
       \<or> (\<exists>msg. out = Inl (BaseException msg))"
  using assms
  by (auto simp: check_ssl_def try_body_def split: sum.splits bool.splits exn.splits prod.splits)

subsection \<open>What a call of the handler reads and writes\<close>



subsection \<open>A checker that never raises\<close>

text \<open>
  With a checker whose \<open>get_certificate_info\<close> returns for every host and whose results
  serialise, every request with the key \<open>hosts\<close> is answered 200 with one result per host:
  the guarantee of the batch rests on the checker, the handler adds no recovery to it.
\<close>

lemma never_raising_checker_answers_200:
  assumes "map_of kvs ''hosts'' = Some v" and "SSLChecker K = Inr c"
    and returns: "\<forall>c h. \<exists>r c'. get_certificate_info K c h = Inr (r, c')"
    and serialises: "\<forall>r. \<exists>j. jsonify_result K r = Inr j"
  shows "\<exists>js. fst (check_ssl K (Inr (JObj kvs)) w) = Inr (success_response js)
              \<and> length js = length (as_list v)"
proof -
  let ?hosts = "as_list v"
  have "\<forall>i<length ?hosts. \<exists>r. probe K c ?hosts i = Inr r"
  proof (intro allI impI)
    fix i
    from returns obtain r c' where
      "get_certificate_info K (checker_after K c (take i ?hosts)) (?hosts ! i) = Inr (r, c')"
      by blast
    then show "\<exists>r. probe K c ?hosts i = Inr r"
      by (simp add: probe_def)
  qed
  then obtain f where f: "\<forall>i<length ?hosts. probe K c ?hosts i = Inr (f i)"
    by metis
  define rs where "rs = map f [0..<length ?hosts]"
  have len: "length rs = length ?hosts"
    and probes: "\<forall>i<length ?hosts. probe K c ?hosts i = Inr (rs ! i)"
    using f by (simp_all add: rs_def)
  obtain js where js: "jsonify_results K rs = Inr js"
  proof (cases "jsonify_results K rs")
    case (Inl e)
    from jsonify_results_raises [OF this] obtain i where "jsonify_result K (rs ! i) = Inl e"
      by blast
    moreover from serialises obtain j where "jsonify_result K (rs ! i) = Inr j"
      by blast
    ultimately show ?thesis by simp
  qed
  then have "length js = length ?hosts"
    using len by (simp add: jsonify_results_returns)
  moreover from try_body_all_return [OF assms(1,2) len probes, of w] js
  have "fst (check_ssl K (Inr (JObj kvs)) w) = Inr (success_response js)"
    by (simp add: check_ssl_def)
  ultimately show ?thesis by blast
qed

subsection \<open>The hosts of a request\<close>

text \<open>Lines 15 and 16, spelled out: a list is taken as it is, any other value alone.\<close>

lemma as_list_hosts:
  assumes "v = JArr hosts \<or> (\<forall>xs. v \<noteq> JArr xs) \<and> hosts = [v]"
  shows "as_list v = hosts"
  using assms by (cases v) auto


lemma check_ssl_state: "snd (check_ssl K req w) = snd (try_body K req w)"
  by (simp add: check_ssl_def split: prod.splits sum.splits exn.splits)


subsection \<open>The example checker\<close>

lemma example_simps:
  "SSLChecker example_checker = Inr 0"
  "jsonify_result example_checker r = Inr r"
  "get_certificate_info example_checker n (JStr ''raises.example'') = Inl (Exception ''[Errno 111] Connection refused'')"
  "get_certificate_info example_checker n (JStr ''down.example'') = Inr (result_of (JStr ''down.example'') ''unreachable'', Suc n)"
  "get_certificate_info example_checker n (JStr ''ok.example'') = Inr (result_of (JStr ''ok.example'') ''ok'', Suc n)"
  by (simp_all add: example_checker_def)

section \<open>The claims\<close>

subsection \<open>Claim C1\<close>

text \<open>
  Claim C1, as stated, fails: a request with a \<open>hosts\<close> value does not always get a result
  list. In a batch of two hosts where \<open>get_certificate_info\<close> raises for the first, the
  response is 500 and its body has no result list; the second host is not probed.
\<close>

theorem raising_probe_leaves_no_result_list:
  "check_ssl example_checker
       (Inr (JObj [(''hosts'', JArr [JStr ''raises.example'', JStr ''ok.example''])])) idle
     = (Inr \<lparr>status_code = 500,
             body = JObj [(''success'', JBool False),
                          (''error'', JStr ''[Errno 111] Connection refused'')]\<rparr>,
        \<lparr>heap = [0], calls = [New_SSLChecker, Get_certificate_info (JStr ''raises.example'')]\<rparr>)"
  by (simp add: check_ssl_def try_body_def missing_hosts_def example_simps log_def idle_def
      failure_response_def)

text \<open>
  Claim C1, amended. For a request whose body has the key \<open>hosts\<close>, with the hosts being
  the elements of the value when it is a list and the value alone otherwise: when the
  constructor returns, \<open>get_certificate_info\<close> returns for every host and every result
  serialises, the response is 200 and its result list has exactly one entry per host, in
  the order of the hosts, entry \<open>i\<close> being the serialised result of the probe of
  \<open>hosts[i]\<close>, whatever the results report; every host is probed once, in order. Every
  response with status 200 to such a request has this form. When \<open>get_certificate_info\<close>
  raises an exception for a host, the response is 500 and has no result list.
\<close>

theorem results_match_hosts:
  assumes "map_of kvs ''hosts'' = Some v"
    and "v = JArr hosts \<or> (\<forall>xs. v \<noteq> JArr xs) \<and> hosts = [v]"
  shows "(SSLChecker K = Inr c \<and> length rs = length hosts \<and> length js = length hosts
          \<and> (\<forall>i<length hosts.
                probe K c hosts i = Inr (rs ! i) \<and> jsonify_result K (rs ! i) = Inr (js ! i))
          \<longrightarrow> check_ssl K (Inr (JObj kvs)) w =
                (Inr \<lparr>status_code = 200,
                      body = JObj [(''success'', JBool True), (''results'', JArr js)]\<rparr>,
                 w\<lparr>heap := heap w @ [checker_after K c hosts],
                   calls := calls w @ New_SSLChecker # map Get_certificate_info hosts\<rparr>))
       \<and> (check_ssl K (Inr (JObj kvs)) w = (Inr resp, w') \<and> status_code resp = 200
          \<longrightarrow> (\<exists>c rs js. SSLChecker K = Inr c
                \<and> resp = \<lparr>status_code = 200,
                           body = JObj [(''success'', JBool True), (''results'', JArr js)]\<rparr>
                \<and> length js = length hosts \<and> length rs = length hosts
                \<and> (\<forall>i<length hosts.
                      probe K c hosts i = Inr (rs ! i) \<and> jsonify_result K (rs ! i) = Inr (js ! i))
                \<and> calls w' = calls w @ New_SSLChecker # map Get_certificate_info hosts))
       \<and> (SSLChecker K = Inr c \<and> i < length hosts
          \<and> (\<forall>j<i. \<exists>r. probe K c hosts j = Inr r)
          \<and> probe K c hosts i = Inl (Exception msg)
          \<longrightarrow> fst (check_ssl K (Inr (JObj kvs)) w) =
                Inr \<lparr>status_code = 500,
                     body = JObj [(''success'', JBool False), (''error'', JStr msg)]\<rparr>)"
proof -
  note hosts = as_list_hosts [OF assms(2)]
  have forward: "check_ssl K (Inr (JObj kvs)) w =
                (Inr \<lparr>status_code = 200,
                      body = JObj [(''success'', JBool True), (''results'', JArr js)]\<rparr>,
                 w\<lparr>heap := heap w @ [checker_after K c hosts],
                   calls := calls w @ New_SSLChecker # map Get_certificate_info hosts\<rparr>)"
    if h: "SSLChecker K = Inr c \<and> length rs = length hosts \<and> length js = length hosts
          \<and> (\<forall>i<length hosts.
                probe K c hosts i = Inr (rs ! i) \<and> jsonify_result K (rs ! i) = Inr (js ! i))"
  proof -
    from h have "jsonify_results K rs = Inr js"
      by (simp add: jsonify_results_returns)
    moreover from h have "length rs = length (as_list v)"
      and "\<forall>i<length (as_list v). probe K c (as_list v) i = Inr (rs ! i)"
      by (simp_all add: hosts)
    moreover from h have "SSLChecker K = Inr c" by simp
    ultimately show ?thesis
      using try_body_all_return [of kvs v K c rs w] assms(1)
      by (simp add: check_ssl_def hosts success_response_def)
  qed
  have backward: "\<exists>c rs js. SSLChecker K = Inr c
                \<and> resp = \<lparr>status_code = 200,
                           body = JObj [(''success'', JBool True), (''results'', JArr js)]\<rparr>
                \<and> length js = length hosts \<and> length rs = length hosts
                \<and> (\<forall>i<length hosts.
                      probe K c hosts i = Inr (rs ! i) \<and> jsonify_result K (rs ! i) = Inr (js ! i))
                \<and> calls w' = calls w @ New_SSLChecker # map Get_certificate_info hosts"
    if h: "check_ssl K (Inr (JObj kvs)) w = (Inr resp, w') \<and> status_code resp = 200"
  proof -
    have not_500: "resp \<noteq> failure_response m" for m
      using h by (auto simp: failure_response_def)
    obtain c where c: "SSLChecker K = Inr c"
    proof (cases "SSLChecker K")
      case (Inl e)
      with hosts_present [OF assms(1)]
      have "try_body K (Inr (JObj kvs)) w = (Inl e, log New_SSLChecker w)"
        by (simp add: try_body_def)
      with h not_500 show ?thesis
        by (auto simp: check_ssl_def split: exn.splits)
    qed
    let ?w0 = "log New_SSLChecker (w\<lparr>heap := heap w @ [c]\<rparr>)"
    have a: "length (heap w) < length (heap ?w0)" and at: "heap ?w0 ! length (heap w) = c"
      by (simp_all add: log_def)
    obtain out w1 where run: "probe_hosts K (length (heap w)) hosts [] ?w0 = (out, w1)"
      by (cases "probe_hosts K (length (heap w)) hosts [] ?w0")
    from h not_500 run obtain rs js where
      rs: "out = Inr rs" and js: "jsonify_results K rs = Inr js"
      and resp: "resp = success_response js" and w': "w' = w1"
      unfolding check_ssl_def try_body_hosts [OF assms(1) c] hosts
      by (auto split: sum.splits exn.splits)
    from probe_hosts_returns [OF run [unfolded rs] a] have
      len: "length rs = length hosts"
      and probes: "\<forall>i<length hosts. probe K c hosts i = Inr (rs ! i)"
      and w1: "w1 = ?w0\<lparr>heap := (heap ?w0)[length (heap w) := checker_after K c hosts],
                        calls := calls ?w0 @ map Get_certificate_info hosts\<rparr>"
      unfolding at by auto
    from js have "length js = length rs"
      and "\<forall>i<length rs. jsonify_result K (rs ! i) = Inr (js ! i)"
      by (simp_all add: jsonify_results_returns)
    with c resp len probes w1 w' show ?thesis
      by (intro exI [of _ c] exI [of _ rs] exI [of _ js])
        (simp add: log_def success_response_def)
  qed
  have raised: "fst (check_ssl K (Inr (JObj kvs)) w) =
                Inr \<lparr>status_code = 500,
                     body = JObj [(''success'', JBool False), (''error'', JStr msg)]\<rparr>"
    if h: "SSLChecker K = Inr c \<and> i < length hosts
          \<and> (\<forall>j<i. \<exists>r. probe K c hosts j = Inr r)
          \<and> probe K c hosts i = Inl (Exception msg)"
    using h try_body_probe_raises [of kvs v K c i "Exception msg" w] assms(1)
    by (simp add: check_ssl_def hosts failure_response_def)
  from forward backward raised show ?thesis by blast
qed

theorem results_match_hosts_witness:
  "map_of [(''hosts'', JArr [JStr ''ok.example'', JStr ''down.example''])] ''hosts''
     = Some (JArr [JStr ''ok.example'', JStr ''down.example''])
   \<and> SSLChecker example_checker = Inr 0
   \<and> probe example_checker 0 [JStr ''ok.example'', JStr ''down.example''] 0
       = Inr (result_of (JStr ''ok.example'') ''ok'')
   \<and> probe example_checker 0 [JStr ''ok.example'', JStr ''down.example''] 1
       = Inr (result_of (JStr ''down.example'') ''unreachable'')
   \<and> jsonify_result example_checker (result_of (JStr ''ok.example'') ''ok'')
       = Inr (result_of (JStr ''ok.example'') ''ok'')
   \<and> jsonify_result example_checker (result_of (JStr ''down.example'') ''unreachable'')
       = Inr (result_of (JStr ''down.example'') ''unreachable'')
   \<and> check_ssl example_checker
        (Inr (JObj [(''hosts'', JArr [JStr ''ok.example'', JStr ''down.example''])])) idle
     = (Inr \<lparr>status_code = 200,
             body = JObj [(''success'', JBool True),
                          (''results'',
                           JArr [JObj [(''host'', JStr ''ok.example''), (''status'', JStr ''ok'')],
                                 JObj [(''host'', JStr ''down.example''),
                                       (''status'', JStr ''unreachable'')]])]\<rparr>,
        \<lparr>heap = [2], calls = [New_SSLChecker, Get_certificate_info (JStr ''ok.example''),
                               Get_certificate_info (JStr ''down.example'')]\<rparr>)"
proof -
  let ?hosts = "[JStr ''ok.example'', JStr ''down.example'']"
  let ?r0 = "result_of (JStr ''ok.example'') ''ok''"
  let ?r1 = "result_of (JStr ''down.example'') ''unreachable''"
  have v: "map_of [(''hosts'', JArr ?hosts)] ''hosts'' = Some (JArr ?hosts)"
    by simp
  have shape: "JArr ?hosts = JArr ?hosts \<or> (\<forall>xs. JArr ?hosts \<noteq> JArr xs) \<and> ?hosts = [JArr ?hosts]"
    by simp
  have c: "SSLChecker example_checker = Inr 0"
    by (simp add: example_simps)
  have p0: "probe example_checker 0 ?hosts 0 = Inr ?r0"
    and p1: "probe example_checker 0 ?hosts 1 = Inr ?r1"
    by (simp_all add: example_simps step_def)
  have j0: "jsonify_result example_checker ?r0 = Inr ?r0"
    and j1: "jsonify_result example_checker ?r1 = Inr ?r1"
    by (simp_all add: example_simps)
  have all: "\<forall>i<length ?hosts.
               probe example_checker 0 ?hosts i = Inr ([?r0, ?r1] ! i)
               \<and> jsonify_result example_checker ([?r0, ?r1] ! i) = Inr ([?r0, ?r1] ! i)"
    using p0 p1 j0 j1 by (simp add: less_Suc_eq)
  from results_match_hosts [OF v shape, where K = example_checker and c = 0
      and rs = "[?r0, ?r1]" and js = "[?r0, ?r1]" and w = idle] c all
  have "check_ssl example_checker (Inr (JObj [(''hosts'', JArr ?hosts)])) idle
     = (Inr \<lparr>status_code = 200,
             body = JObj [(''success'', JBool True), (''results'', JArr [?r0, ?r1])]\<rparr>,
        idle\<lparr>heap := heap idle @ [checker_after example_checker 0 ?hosts],
             calls := calls idle @ New_SSLChecker # map Get_certificate_info ?hosts\<rparr>)"
    by simp
  then have run: "check_ssl example_checker (Inr (JObj [(''hosts'', JArr ?hosts)])) idle
     = (Inr \<lparr>status_code = 200,
             body = JObj [(''success'', JBool True),
                          (''results'',
                           JArr [JObj [(''host'', JStr ''ok.example''), (''status'', JStr ''ok'')],
                                 JObj [(''host'', JStr ''down.example''),
                                       (''status'', JStr ''unreachable'')]])]\<rparr>,
        \<lparr>heap = [2], calls = [New_SSLChecker, Get_certificate_info (JStr ''ok.example''),
                               Get_certificate_info (JStr ''down.example'')]\<rparr>)"
    by (simp add: idle_def result_of_def step_def example_simps)
  from v c p0 p1 j0 j1 run show ?thesis by blast
qed

subsection \<open>Claim C2\<close>

text \<open>
  Claim C2, as stated, fails: there is no \<open>try\<close> around the call on line 24 other than
  the one of line 9. In a batch of three hosts where \<open>get_certificate_info\<close> raises for the second,
  the response is 500, the result of the first host is dropped and the third host is
  never probed.
\<close>

theorem probe_exception_aborts_batch_example:
  "check_ssl example_checker
       (Inr (JObj [(''hosts'', JArr [JStr ''ok.example'', JStr ''raises.example'',
                                       JStr ''down.example''])])) idle
     = (Inr \<lparr>status_code = 500,
             body = JObj [(''success'', JBool False),
                          (''error'', JStr ''[Errno 111] Connection refused'')]\<rparr>,
        \<lparr>heap = [1], calls = [New_SSLChecker, Get_certificate_info (JStr ''ok.example''),
                               Get_certificate_info (JStr ''raises.example'')]\<rparr>)"
  by (simp add: check_ssl_def try_body_def missing_hosts_def example_simps log_def idle_def
      failure_response_def)

text \<open>
  Claim C2, amended. A failure that \<open>get_certificate_info\<close> returns as data does not
  abort the batch: when every probe returns and the results serialise, the response is 200
  with all of them. An exception that \<open>get_certificate_info\<close> raises for one host is not
  recovered by the handler: the response is 500 with the message of the exception, no
  result is returned for any host, and the hosts after it are not probed.
\<close>

theorem probe_exception_aborts_batch:
  assumes "map_of kvs ''hosts'' = Some v" and "SSLChecker K = Inr c"
  shows "(length rs = length (as_list v)
          \<and> (\<forall>i<length (as_list v). probe K c (as_list v) i = Inr (rs ! i))
          \<and> jsonify_results K rs = Inr js
          \<longrightarrow> check_ssl K (Inr (JObj kvs)) w =
                (Inr (success_response js),
                 w\<lparr>heap := heap w @ [checker_after K c (as_list v)],
                   calls := calls w @ New_SSLChecker # map Get_certificate_info (as_list v)\<rparr>))
       \<and> (i < length (as_list v)
          \<and> (\<forall>j<i. \<exists>r. probe K c (as_list v) j = Inr r)
          \<and> probe K c (as_list v) i = Inl (Exception msg)
          \<longrightarrow> check_ssl K (Inr (JObj kvs)) w =
                (Inr (failure_response msg),
                 w\<lparr>heap := heap w @ [checker_after K c (take i (as_list v))],
                   calls := calls w @ New_SSLChecker
                              # map Get_certificate_info (take (Suc i) (as_list v))\<rparr>))"
proof (intro conjI impI)
  assume "length rs = length (as_list v)
          \<and> (\<forall>i<length (as_list v). probe K c (as_list v) i = Inr (rs ! i))
          \<and> jsonify_results K rs = Inr js"
  with try_body_all_return [OF assms, of rs w]
  show "check_ssl K (Inr (JObj kvs)) w =
          (Inr (success_response js),
           w\<lparr>heap := heap w @ [checker_after K c (as_list v)],
             calls := calls w @ New_SSLChecker # map Get_certificate_info (as_list v)\<rparr>)"
    by (simp add: check_ssl_def)
next
  assume "i < length (as_list v)
          \<and> (\<forall>j<i. \<exists>r. probe K c (as_list v) j = Inr r)
          \<and> probe K c (as_list v) i = Inl (Exception msg)"
  with try_body_probe_raises [OF assms, of i "Exception msg" w]
  show "check_ssl K (Inr (JObj kvs)) w =
          (Inr (failure_response msg),
           w\<lparr>heap := heap w @ [checker_after K c (take i (as_list v))],
             calls := calls w @ New_SSLChecker
                        # map Get_certificate_info (take (Suc i) (as_list v))\<rparr>)"
    by (simp add: check_ssl_def)
qed

theorem probe_exception_aborts_batch_witness:
  "map_of [(''hosts'', JArr [JStr ''down.example'', JStr ''raises.example''])] ''hosts''
     = Some (JArr [JStr ''down.example'', JStr ''raises.example''])
   \<and> SSLChecker example_checker = Inr 0
   \<and> (1::nat) < length (as_list (JArr [JStr ''down.example'', JStr ''raises.example'']))
   \<and> probe example_checker 0 (as_list (JArr [JStr ''down.example'', JStr ''raises.example''])) 0
       = Inr (result_of (JStr ''down.example'') ''unreachable'')
   \<and> probe example_checker 0 (as_list (JArr [JStr ''down.example'', JStr ''raises.example''])) 1
       = Inl (Exception ''[Errno 111] Connection refused'')
   \<and> check_ssl example_checker
        (Inr (JObj [(''hosts'', JArr [JStr ''down.example'', JStr ''raises.example''])])) idle
       = (Inr (failure_response ''[Errno 111] Connection refused''),
          \<lparr>heap = [1], calls = [New_SSLChecker, Get_certificate_info (JStr ''down.example''),
                                 Get_certificate_info (JStr ''raises.example'')]\<rparr>)
   \<and> map_of [(''hosts'', JStr ''down.example'')] ''hosts'' = Some (JStr ''down.example'')
   \<and> length [result_of (JStr ''down.example'') ''unreachable'']
       = length (as_list (JStr ''down.example''))
   \<and> probe example_checker 0 (as_list (JStr ''down.example'')) 0
       = Inr ([result_of (JStr ''down.example'') ''unreachable''] ! 0)
   \<and> jsonify_results example_checker [result_of (JStr ''down.example'') ''unreachable'']
       = Inr [result_of (JStr ''down.example'') ''unreachable'']
   \<and> check_ssl example_checker (Inr (JObj [(''hosts'', JStr ''down.example'')])) idle
       = (Inr (success_response [result_of (JStr ''down.example'') ''unreachable'']),
          \<lparr>heap = [1], calls = [New_SSLChecker, Get_certificate_info (JStr ''down.example'')]\<rparr>)"
proof -
  let ?v = "JArr [JStr ''down.example'', JStr ''raises.example'']"
  let ?u = "JStr ''down.example''"
  let ?r = "result_of (JStr ''down.example'') ''unreachable''"
  have c: "SSLChecker example_checker = Inr 0"
    by (simp add: example_simps)
  have v: "map_of [(''hosts'', ?v)] ''hosts'' = Some ?v"
    and u: "map_of [(''hosts'', ?u)] ''hosts'' = Some ?u"
    by simp_all
  have i: "(1::nat) < length (as_list ?v)" by simp
  have p0: "probe example_checker 0 (as_list ?v) 0 = Inr ?r"
    and p1: "probe example_checker 0 (as_list ?v) 1 = Inl (Exception ''[Errno 111] Connection refused'')"
    by (simp_all add: example_simps step_def)
  from p0 have before: "\<forall>j<1. \<exists>r. probe example_checker 0 (as_list ?v) j = Inr r"
    by simp
  have len: "length [?r] = length (as_list ?u)" by simp
  have q0: "probe example_checker 0 (as_list ?u) 0 = Inr ([?r] ! 0)"
    by (simp add: example_simps)
  then have all: "\<forall>i<length (as_list ?u). probe example_checker 0 (as_list ?u) i = Inr ([?r] ! i)"
    by simp
  have js: "jsonify_results example_checker [?r] = Inr [?r]"
    by (simp add: example_simps)
  from probe_exception_aborts_batch [OF v c, where i = 1 and w = idle
      and msg = "''[Errno 111] Connection refused''"]
    i before p1
  have raised: "check_ssl example_checker (Inr (JObj [(''hosts'', ?v)])) idle
       = (Inr (failure_response ''[Errno 111] Connection refused''),
          \<lparr>heap = [1], calls = [New_SSLChecker, Get_certificate_info (JStr ''down.example''),
                                 Get_certificate_info (JStr ''raises.example'')]\<rparr>)"
    by (simp add: idle_def checker_after_def step_def example_simps)
  from probe_exception_aborts_batch [OF u c, where rs = "[?r]" and js = "[?r]" and w = idle] len all js
  have returned: "check_ssl example_checker (Inr (JObj [(''hosts'', ?u)])) idle
       = (Inr (success_response [?r]),
          \<lparr>heap = [1], calls = [New_SSLChecker, Get_certificate_info (JStr ''down.example'')]\<rparr>)"
    by (simp add: idle_def checker_after_def step_def example_simps)
  from c v u i p0 p1 len q0 js raised returned show ?thesis
    by blast
qed

subsection \<open>Claim C3\<close>




subsection \<open>Claim C4\<close>

text \<open>
  Claim C4, as stated, fails in its conclusion: a single string is probed as a one-element
  list, but the response need not contain a result list. When \<open>get_certificate_info\<close>
  raises for that host, the response is 500 and its body has no result list.
\<close>

theorem single_host_without_result_list:
  "check_ssl example_checker
       (Inr (JObj [(''timeout'', JInt 5), (''hosts'', JStr ''raises.example'')]))
       \<lparr>heap = [4], calls = []\<rparr>
     = (Inr \<lparr>status_code = 500,
             body = JObj [(''success'', JBool False),
                          (''error'', JStr ''[Errno 111] Connection refused'')]\<rparr>,
        \<lparr>heap = [4, 0],
         calls = [New_SSLChecker, Get_certificate_info (JStr ''raises.example'')]\<rparr>)"
  by (simp add: check_ssl_def try_body_def missing_hosts_def example_simps log_def
      failure_response_def)

text \<open>
  Claim C4, amended. When the value of \<open>hosts\<close> is a single string, it is made a
  one-element list before the probing: once the constructor has returned,
  \<open>get_certificate_info\<close> is called exactly once, on that string. When that call returns
  and its result serialises, the response is 200 and contains a one-element result list,
  the serialised result for that host; when that call raises an exception, the response is
  500 and contains no result list.
\<close>

theorem single_host_normalised:
  assumes "map_of kvs ''hosts'' = Some (JStr s)" and "SSLChecker K = Inr c"
  shows "calls (snd (check_ssl K (Inr (JObj kvs)) w))
           = calls w @ [New_SSLChecker, Get_certificate_info (JStr s)]
       \<and> (get_certificate_info K c (JStr s) = Inr (r, c') \<and> jsonify_result K r = Inr j
          \<longrightarrow> check_ssl K (Inr (JObj kvs)) w =
                (Inr \<lparr>status_code = 200,
                      body = JObj [(''success'', JBool True), (''results'', JArr [j])]\<rparr>,
                 w\<lparr>heap := heap w @ [c'],
                   calls := calls w @ [New_SSLChecker, Get_certificate_info (JStr s)]\<rparr>))
       \<and> (get_certificate_info K c (JStr s) = Inl (Exception msg)
          \<longrightarrow> check_ssl K (Inr (JObj kvs)) w =
                (Inr \<lparr>status_code = 500,
                      body = JObj [(''success'', JBool False), (''error'', JStr msg)]\<rparr>,
                 w\<lparr>heap := heap w @ [c],
                   calls := calls w @ [New_SSLChecker, Get_certificate_info (JStr s)]\<rparr>))"
proof -
  note body = try_body_hosts [OF assms]
  have once: "calls (snd (check_ssl K (Inr (JObj kvs)) w))
           = calls w @ [New_SSLChecker, Get_certificate_info (JStr s)]"
    by (cases "get_certificate_info K c (JStr s)")
      (auto simp: check_ssl_state body log_def split: sum.splits)
  have returned: "check_ssl K (Inr (JObj kvs)) w =
                (Inr \<lparr>status_code = 200,
                      body = JObj [(''success'', JBool True), (''results'', JArr [j])]\<rparr>,
                 w\<lparr>heap := heap w @ [c'],
                   calls := calls w @ [New_SSLChecker, Get_certificate_info (JStr s)]\<rparr>)"
    if "get_certificate_info K c (JStr s) = Inr (r, c') \<and> jsonify_result K r = Inr j"
    using that by (simp add: check_ssl_def body log_def success_response_def)
  have raised: "check_ssl K (Inr (JObj kvs)) w =
                (Inr \<lparr>status_code = 500,
                      body = JObj [(''success'', JBool False), (''error'', JStr msg)]\<rparr>,
                 w\<lparr>heap := heap w @ [c],
                   calls := calls w @ [New_SSLChecker, Get_certificate_info (JStr s)]\<rparr>)"
    if "get_certificate_info K c (JStr s) = Inl (Exception msg)"
    using that by (simp add: check_ssl_def body log_def failure_response_def)
  from once returned raised show ?thesis by blast
qed

theorem single_host_normalised_witness:
  "map_of [(''hosts'', JStr ''ok.example'')] ''hosts'' = Some (JStr ''ok.example'')
   \<and> SSLChecker example_checker = Inr 0
   \<and> get_certificate_info example_checker 0 (JStr ''ok.example'')
       = Inr (result_of (JStr ''ok.example'') ''ok'', 1)
   \<and> jsonify_result example_checker (result_of (JStr ''ok.example'') ''ok'')
       = Inr (result_of (JStr ''ok.example'') ''ok'')
   \<and> check_ssl example_checker (Inr (JObj [(''hosts'', JStr ''ok.example'')])) idle =
       (Inr \<lparr>status_code = 200,
             body = JObj [(''success'', JBool True),
                          (''results'', JArr [JObj [(''host'', JStr ''ok.example''),
                                                    (''status'', JStr ''ok'')]])]\<rparr>,
        \<lparr>heap = [1], calls = [New_SSLChecker, Get_certificate_info (JStr ''ok.example'')]\<rparr>)
   \<and> map_of [(''hosts'', JStr ''raises.example'')] ''hosts'' = Some (JStr ''raises.example'')
   \<and> get_certificate_info example_checker 0 (JStr ''raises.example'')
       = Inl (Exception ''[Errno 111] Connection refused'')
   \<and> check_ssl example_checker (Inr (JObj [(''hosts'', JStr ''raises.example'')])) idle =
       (Inr \<lparr>status_code = 500,
             body = JObj [(''success'', JBool False),
                          (''error'', JStr ''[Errno 111] Connection refused'')]\<rparr>,
        \<lparr>heap = [0], calls = [New_SSLChecker, Get_certificate_info (JStr ''raises.example'')]\<rparr>)"
proof -
  have h1: "map_of [(''hosts'', JStr ''ok.example'')] ''hosts'' = Some (JStr ''ok.example'')"
    and g1: "map_of [(''hosts'', JStr ''raises.example'')] ''hosts'' = Some (JStr ''raises.example'')"
    by simp_all
  have h2: "SSLChecker example_checker = Inr 0"
    by (simp add: example_simps)
  have h3: "get_certificate_info example_checker 0 (JStr ''ok.example'')
              = Inr (result_of (JStr ''ok.example'') ''ok'', 1)"
    and g3: "get_certificate_info example_checker 0 (JStr ''raises.example'')
              = Inl (Exception ''[Errno 111] Connection refused'')"
    by (simp_all add: example_simps)
  have h4: "jsonify_result example_checker (result_of (JStr ''ok.example'') ''ok'')
              = Inr (result_of (JStr ''ok.example'') ''ok'')"
    by (simp add: example_simps)
  from single_host_normalised [OF h1 h2, where w = idle and c' = 1
      and r = "result_of (JStr ''ok.example'') ''ok''"
      and j = "result_of (JStr ''ok.example'') ''ok''"] h3 h4
  have 1: "check_ssl example_checker (Inr (JObj [(''hosts'', JStr ''ok.example'')])) idle =
       (Inr \<lparr>status_code = 200,
             body = JObj [(''success'', JBool True),
                          (''results'', JArr [JObj [(''host'', JStr ''ok.example''),
                                                    (''status'', JStr ''ok'')]])]\<rparr>,
        \<lparr>heap = [1], calls = [New_SSLChecker, Get_certificate_info (JStr ''ok.example'')]\<rparr>)"
    by (simp add: idle_def result_of_def)
  from single_host_normalised [OF g1 h2, where w = idle
      and msg = "''[Errno 111] Connection refused''"] g3
  have 2: "check_ssl example_checker (Inr (JObj [(''hosts'', JStr ''raises.example'')])) idle =
       (Inr \<lparr>status_code = 500,
             body = JObj [(''success'', JBool False),
                          (''error'', JStr ''[Errno 111] Connection refused'')]\<rparr>,
        \<lparr>heap = [0], calls = [New_SSLChecker, Get_certificate_info (JStr ''raises.example'')]\<rparr>)"
    by (simp add: idle_def)
  from h1 h2 h3 h4 g1 g3 1 2 show ?thesis by blast
qed

subsection \<open>Claim C5\<close>

text \<open>
  Claim C5, as stated, fails on the policy of the spec: a certificate that expires in 100
  days, under a threshold of 30 days, whose issuer equals its subject and for which no
  trusted chain was established, is classified \<open>self_signed\<close>, not \<open>ok\<close>.
\<close>

theorem self_signed_is_not_ok:
  "classify (example_certificate ''CN=internal.example'' ''CN=internal.example''
               (1700000000 + days 100) False) 1700000000 (days 30) = self_signed
   \<and> classify (example_certificate ''CN=internal.example'' ''CN=internal.example''
               (1700000000 + days 100) False) 1700000000 (days 30) \<noteq> ok"
  by (simp add: classify_def example_certificate_def days_def)

text \<open>
  Claim C5, amended. The classification of a retrieved certificate is a function of the
  certificate (with whether a trusted chain was established), the current time and the
  threshold: \<open>expired\<close> when now is after not-after; otherwise \<open>expiring_soon\<close> when
  not-after minus now is below the threshold; otherwise \<open>self_signed\<close> when the issuer
  equals the subject and no trusted chain was established, and \<open>ok\<close> in every other case.
  In particular not-after one second before now gives \<open>expired\<close>, not-after 10 days after
  now with a threshold of 30 days gives \<open>expiring_soon\<close>, and not-after 100 days after now
  with a threshold of 30 days gives \<open>ok\<close> for a certificate that is not self-signed
  without a trusted chain.
\<close>

theorem classify_policy:
  "(now > not_after cert \<longrightarrow> classify cert now threshold = expired)
   \<and> (\<not> now > not_after cert \<and> not_after cert - now < threshold
        \<longrightarrow> classify cert now threshold = expiring_soon)
   \<and> (\<not> now > not_after cert \<and> \<not> not_after cert - now < threshold
          \<and> issuer cert = subject cert \<and> \<not> trusted_chain cert
        \<longrightarrow> classify cert now threshold = self_signed)
   \<and> (\<not> now > not_after cert \<and> \<not> not_after cert - now < threshold
          \<and> \<not> (issuer cert = subject cert \<and> \<not> trusted_chain cert)
        \<longrightarrow> classify cert now threshold = ok)
   \<and> (not_after cert = now - 1 \<longrightarrow> classify cert now threshold = expired)
   \<and> (not_after cert = now + days 10 \<longrightarrow> classify cert now (days 30) = expiring_soon)
   \<and> (not_after cert = now + days 100
          \<and> \<not> (issuer cert = subject cert \<and> \<not> trusted_chain cert)
        \<longrightarrow> classify cert now (days 30) = ok)"
proof -
  have after: "classify cert now threshold = expired" if "now > not_after cert"
    using that by (simp add: classify_def)
  have soon: "classify cert now threshold = expiring_soon"
    if "\<not> now > not_after cert \<and> not_after cert - now < threshold"
    using that by (simp add: classify_def)
  have self: "classify cert now threshold = self_signed"
    if "\<not> now > not_after cert \<and> \<not> not_after cert - now < threshold
          \<and> issuer cert = subject cert \<and> \<not> trusted_chain cert"
    using that by (simp add: classify_def)
  have fine: "classify cert now threshold = ok"
    if "\<not> now > not_after cert \<and> \<not> not_after cert - now < threshold
          \<and> \<not> (issuer cert = subject cert \<and> \<not> trusted_chain cert)"
    using that by (auto simp: classify_def)
  have second: "classify cert now threshold = expired" if "not_after cert = now - 1"
    using that by (simp add: classify_def)
  have ten: "classify cert now (days 30) = expiring_soon" if "not_after cert = now + days 10"
    using that by (simp add: classify_def days_def)
  have hundred: "classify cert now (days 30) = ok"
    if "not_after cert = now + days 100
          \<and> \<not> (issuer cert = subject cert \<and> \<not> trusted_chain cert)"
    using that by (auto simp: classify_def days_def)
  from after soon self fine second ten hundred show ?thesis
    by blast
qed

theorem classify_policy_witness:
  "not_after (example_certificate ''CN=a.example'' ''CN=Example CA'' (1700000000 - 1) True)
     = 1700000000 - 1
   \<and> classify (example_certificate ''CN=a.example'' ''CN=Example CA'' (1700000000 - 1) True)
        1700000000 (days 30) = expired
   \<and> not_after (example_certificate ''CN=a.example'' ''CN=Example CA'' (1700000000 + days 10) True)
     = 1700000000 + days 10
   \<and> classify (example_certificate ''CN=a.example'' ''CN=Example CA'' (1700000000 + days 10) True)
        1700000000 (days 30) = expiring_soon
   \<and> not_after (example_certificate ''CN=a.example'' ''CN=Example CA'' (1700000000 + days 100) True)
     = 1700000000 + days 100
   \<and> trusted_chain (example_certificate ''CN=a.example'' ''CN=Example CA'' (1700000000 + days 100) True)
   \<and> classify (example_certificate ''CN=a.example'' ''CN=Example CA'' (1700000000 + days 100) True)
        1700000000 (days 30) = ok"
proof -
  let ?c1 = "example_certificate ''CN=a.example'' ''CN=Example CA'' (1700000000 - 1) True"
  let ?c2 = "example_certificate ''CN=a.example'' ''CN=Example CA'' (1700000000 + days 10) True"
  let ?c3 = "example_certificate ''CN=a.example'' ''CN=Example CA'' (1700000000 + days 100) True"
  have h1: "not_after ?c1 = 1700000000 - 1"
    and h2: "not_after ?c2 = 1700000000 + days 10"
    and h3: "not_after ?c3 = 1700000000 + days 100"
    and h4: "trusted_chain ?c3"
    by (simp_all add: example_certificate_def)
  from classify_policy [where now = 1700000000 and cert = ?c1 and threshold = "days 30"] h1
  have 1: "classify ?c1 1700000000 (days 30) = expired" by blast
  from classify_policy [where now = 1700000000 and cert = ?c2 and threshold = "days 30"] h2
  have 2: "classify ?c2 1700000000 (days 30) = expiring_soon" by blast
  from classify_policy [where now = 1700000000 and cert = ?c3 and threshold = "days 30"] h3 h4
  have 3: "classify ?c3 1700000000 (days 30) = ok" by blast
  from h1 h2 h3 h4 1 2 3 show ?thesis by blast
qed

subsection \<open>Claim C6\<close>




subsection \<open>Claim C7\<close>

text \<open>
  Claim C7. A request that is rejected with status 400 is rejected before any probing: the
  state is as it was, so no \<open>SSLChecker\<close> has been constructed and
  \<open>get_certificate_info\<close> has not been called for any host.
\<close>

theorem rejected_before_probing:
  assumes "check_ssl K req w = (Inr resp, w')" and "status_code resp = 400"
  shows "heap w' = heap w \<and> calls w' = calls w"
  using check_ssl_cases [OF assms(1)] assms(2)
  by (auto simp: failure_response_def success_response_def)

theorem rejected_before_probing_witness:
  "check_ssl example_checker (Inr (JObj [(''host'', JStr ''ok.example'')]))
       \<lparr>heap = [3], calls = [New_SSLChecker]\<rparr>
     = (Inr \<lparr>status_code = 400,
             body = JObj [(''error'', JStr ''Missing hosts in request body'')]\<rparr>,
        \<lparr>heap = [3], calls = [New_SSLChecker]\<rparr>)
   \<and> status_code \<lparr>status_code = 400,
                    body = JObj [(''error'', JStr ''Missing hosts in request body'')]\<rparr> = 400
   \<and> heap \<lparr>heap = [3::nat], calls = [New_SSLChecker]\<rparr> = heap \<lparr>heap = [3::nat], calls = [New_SSLChecker]\<rparr>
   \<and> calls \<lparr>heap = [3::nat], calls = [New_SSLChecker]\<rparr> = [New_SSLChecker]"
proof -
  let ?w = "\<lparr>heap = [3::nat], calls = [New_SSLChecker]\<rparr>"
  let ?resp = "\<lparr>status_code = 400,
                 body = JObj [(''error'', JStr ''Missing hosts in request body'')]\<rparr>"
  have h1: "check_ssl example_checker (Inr (JObj [(''host'', JStr ''ok.example'')])) ?w
              = (Inr ?resp, ?w)"
    by (simp add: check_ssl_def try_body_def missing_hosts_def missing_hosts_response_def)
  have h2: "status_code ?resp = 400" by simp
  from rejected_before_probing [OF h1 h2] h1 h2 show ?thesis by simp
qed

subsection \<open>Claim C8\<close>



subsection \<open>Claim C10\<close>



end
